theory Spec2Isabelle
  imports Complex_Main
begin

section \<open>The trading simulator: client-side portfolio and server routes\<close>

text \<open>
  The program is one Python file: a Flask server with four routes, and an HTML page whose
  script keeps the paper-trading portfolio in the browser. Both halves are embedded here:
  the script's \<open>buyStock\<close>, \<open>sellStock\<close> and \<open>fetchCurrentPrice\<close>, and the
  server's \<open>get_stock_price\<close>, \<open>get_stock_history\<close>, \<open>api_get_stock_price\<close>,
  \<open>api_get_stock_price_chart\<close>, \<open>compute_local_portfolio_value\<close> and
  \<open>get_portfolio_chart\<close>.
\<close>

subsection \<open>JavaScript numbers\<close>

text \<open>
  A JavaScript Number is a finite value, one of the two infinities, or NaN. Finite values
  are kept as exact rationals: the rounding of binary64 arithmetic is not part of this
  model, and the negative zero is identified with zero (so a positive value divided by
  zero is \<open>+Infinity\<close>). NaN and the infinities follow IEEE 754: every comparison with
  NaN is false and every arithmetic operation on NaN is NaN.
\<close>

datatype jsnum = Num rat | PInf | NInf | NaN

fun js_neg :: "jsnum \<Rightarrow> jsnum" where
  "js_neg (Num x) = Num (- x)"
| "js_neg PInf = NInf"
| "js_neg NInf = PInf"
| "js_neg NaN = NaN"

fun js_add :: "jsnum \<Rightarrow> jsnum \<Rightarrow> jsnum" where
  "js_add NaN _ = NaN"
| "js_add _ NaN = NaN"
| "js_add (Num x) (Num y) = Num (x + y)"
| "js_add PInf NInf = NaN"
| "js_add NInf PInf = NaN"
| "js_add PInf _ = PInf"
| "js_add _ PInf = PInf"
| "js_add NInf _ = NInf"
| "js_add _ NInf = NInf"

definition js_sub :: "jsnum \<Rightarrow> jsnum \<Rightarrow> jsnum" where
  "js_sub a b = js_add a (js_neg b)"

text \<open>The sign of a number that is not NaN: \<open>True\<close> for negative.\<close>

fun js_negative :: "jsnum \<Rightarrow> bool" where
  "js_negative (Num x) = (x < 0)"
| "js_negative NInf = True"
| "js_negative _ = False"

fun js_mul :: "jsnum \<Rightarrow> jsnum \<Rightarrow> jsnum" where
  "js_mul NaN _ = NaN"
| "js_mul _ NaN = NaN"
| "js_mul (Num x) (Num y) = Num (x * y)"
| "js_mul a b =
     (if a = Num 0 \<or> b = Num 0 then NaN
      else if js_negative a = js_negative b then PInf else NInf)"

fun js_div :: "jsnum \<Rightarrow> jsnum \<Rightarrow> jsnum" where
  "js_div NaN _ = NaN"
| "js_div _ NaN = NaN"
| "js_div (Num x) (Num y) =
     (if y \<noteq> 0 then Num (x / y)
      else if x = 0 then NaN
      else if x < 0 then NInf else PInf)"
| "js_div (Num x) _ = Num 0"
| "js_div a (Num y) = (if js_negative a = (y < 0) then PInf else NInf)"
| "js_div _ _ = NaN"

fun js_lt :: "jsnum \<Rightarrow> jsnum \<Rightarrow> bool" where
  "js_lt NaN _ = False"
| "js_lt _ NaN = False"
| "js_lt (Num x) (Num y) = (x < y)"
| "js_lt PInf _ = False"
| "js_lt _ PInf = True"
| "js_lt _ NInf = False"
| "js_lt NInf _ = True"

fun js_le :: "jsnum \<Rightarrow> jsnum \<Rightarrow> bool" where
  "js_le NaN _ = False"
| "js_le _ NaN = False"
| "js_le (Num x) (Num y) = (x \<le> y)"
| "js_le _ PInf = True"
| "js_le PInf _ = False"
| "js_le NInf _ = True"
| "js_le _ NInf = False"

text \<open>Truthiness of a number (\<open>!x\<close> is its negation): zero and NaN are falsy.\<close>

fun truthy :: "jsnum \<Rightarrow> bool" where
  "truthy (Num x) = (x \<noteq> 0)"
| "truthy NaN = False"
| "truthy _ = True"

text \<open>\<open>a === b\<close> on numbers: NaN is equal to nothing, itself included.\<close>

fun js_strict_eq :: "jsnum \<Rightarrow> jsnum \<Rightarrow> bool" where
  "js_strict_eq NaN _ = False"
| "js_strict_eq _ NaN = False"
| "js_strict_eq a b = (a = b)"

text \<open>\<open>a || b\<close> on numbers.\<close>

definition js_or :: "jsnum \<Rightarrow> jsnum \<Rightarrow> jsnum" where
  "js_or a b = (if truthy a then a else b)"

subsection \<open>Strings: upper-casing and \<open>parseInt\<close>\<close>

text \<open>
  Strings are byte strings. \<open>toUpperCase\<close> (and Python's \<open>upper\<close>) map the ASCII
  letters a to z to A to Z and leave every other byte as it is.
\<close>

definition upper_char :: "char \<Rightarrow> char" where
  "upper_char c =
     (let n = (of_char c :: nat) in if 97 \<le> n \<and> n \<le> 122 then char_of (n - 32) else c)"

definition toUpperCase :: "string \<Rightarrow> string" where
  "toUpperCase s = map upper_char s"

text \<open>
  \<open>parseInt(s)\<close> with no radix: leading white space is skipped, then an optional sign,
  then an optional \<open>0x\<close> or \<open>0X\<close> that selects radix 16; the longest prefix of digits
  of the radix is the value, and no digit at all gives NaN.
\<close>

definition is_space :: "char \<Rightarrow> bool" where
  "is_space c = (let n = (of_char c :: nat) in n = 32 \<or> (9 \<le> n \<and> n \<le> 13))"

definition digit_of :: "nat \<Rightarrow> char \<Rightarrow> nat option" where
  "digit_of radix c =
     (let n = (of_char c :: nat);
          d = (if 48 \<le> n \<and> n \<le> 57 then Some (n - 48)
               else if 97 \<le> n \<and> n \<le> 122 then Some (n - 87)
               else if 65 \<le> n \<and> n \<le> 90 then Some (n - 55)
               else None)
      in case d of None \<Rightarrow> None | Some v \<Rightarrow> if v < radix then Some v else None)"

fun digits_prefix :: "nat \<Rightarrow> string \<Rightarrow> nat list" where
  "digits_prefix radix [] = []"
| "digits_prefix radix (c # cs) =
     (case digit_of radix c of None \<Rightarrow> [] | Some v \<Rightarrow> v # digits_prefix radix cs)"

definition math_int :: "nat \<Rightarrow> nat list \<Rightarrow> nat" where
  "math_int radix ds = foldl (\<lambda>acc d. acc * radix + d) 0 ds"

definition parseInt :: "string \<Rightarrow> jsnum" where
  "parseInt s =
     (let S = dropWhile is_space s;
          neg = (S \<noteq> [] \<and> hd S = CHR ''-'');
          S1 = (if S \<noteq> [] \<and> (hd S = CHR ''+'' \<or> hd S = CHR ''-'') then tl S else S);
          hex = (take 2 S1 = ''0x'' \<or> take 2 S1 = ''0X'');
          R = (if hex then 16 else 10);
          S2 = (if hex then drop 2 S1 else S1);
          Z = digits_prefix R S2
      in if Z = [] then NaN
         else Num (of_int ((if neg then - 1 else 1) * int (math_int R Z))))"

subsection \<open>The portfolio held by the page\<close>

record holding =
  quantity :: jsnum
  avg_price :: jsnum
  currentPrice :: jsnum

record portfolio =
  cash :: jsnum
  stocks :: "string \<rightharpoonup> holding"

text \<open>The page starts with 10000 in cash and no holding.\<close>

definition initial_portfolio :: portfolio where
  "initial_portfolio = \<lparr>cash = Num 10000, stocks = Map.empty\<rparr>"

text \<open>
  What the synchronous request to the server gave back: the HTTP status and the
  \<open>price\<close> member of the JSON reply. The server is a function from the requested path
  to that reply; a trade makes at most one request. The request is taken to complete with
  a status and a reply that parses: a network failure, on which \<open>send\<close> throws, is not
  part of the model.
\<close>

record xhr =
  status :: nat
  data_price :: jsnum

definition fetchCurrentPrice :: "(string \<Rightarrow> xhr) \<Rightarrow> string \<Rightarrow> jsnum" where
  "fetchCurrentPrice server symbol =
     (let x = server (''/get_stock_price/'' @ symbol)
      in if status x = 200 then js_or (data_price x) (Num 0) else Num 0)"

text \<open>The message of the \<open>alert\<close> that ends every run of a trade.\<close>

datatype alert =
    Invalid_input
  | Price_unavailable
  | Insufficient_funds
  | Not_enough_shares
  | Bought jsnum string jsnum
  | Sold jsnum string jsnum

fun is_failure :: "alert \<Rightarrow> bool" where
  "is_failure (Bought _ _ _) = False"
| "is_failure (Sold _ _ _) = False"
| "is_failure _ = True"

text \<open>
  \<open>buyStock\<close> reads the two input fields, and returns the portfolio after the run and
  the alert shown.
\<close>

definition buyStock :: "(string \<Rightarrow> xhr) \<Rightarrow> string \<Rightarrow> string \<Rightarrow> portfolio \<Rightarrow> portfolio \<times> alert" where
  "buyStock server tradeSymbol tradeQuantity pf =
     (let symbol = toUpperCase tradeSymbol;
          qty = parseInt tradeQuantity
      in if symbol = [] \<or> js_le qty (Num 0) then (pf, Invalid_input)
         else
           let price = fetchCurrentPrice server symbol
           in if \<not> truthy price then (pf, Price_unavailable)
              else
                let totalCost = js_mul price qty
                in if js_lt (cash pf) totalCost then (pf, Insufficient_funds)
                   else
                     let pf1 = pf\<lparr>cash := js_sub (cash pf) totalCost\<rparr>;
                         h' = (case stocks pf1 symbol of
                                 Some h \<Rightarrow>
                                   let oldQty = quantity h;
                                       oldAvg = avg_price h;
                                       newAvg = js_div (js_add (js_mul oldQty oldAvg) (js_mul qty price))
                                                       (js_add oldQty qty)
                                   in h\<lparr>quantity := js_add (quantity h) qty,
                                        avg_price := newAvg,
                                        currentPrice := price\<rparr>
                               | None \<Rightarrow>
                                   \<lparr>quantity = qty, avg_price = price, currentPrice = price\<rparr>)
                     in (pf1\<lparr>stocks := (stocks pf1)(symbol \<mapsto> h')\<rparr>, Bought qty symbol price))"

definition sellStock :: "(string \<Rightarrow> xhr) \<Rightarrow> string \<Rightarrow> string \<Rightarrow> portfolio \<Rightarrow> portfolio \<times> alert" where
  "sellStock server tradeSymbol tradeQuantity pf =
     (let symbol = toUpperCase tradeSymbol;
          qty = parseInt tradeQuantity
      in if symbol = [] \<or> js_le qty (Num 0) then (pf, Invalid_input)
         else
           case stocks pf symbol of
             None \<Rightarrow> (pf, Not_enough_shares)
           | Some h \<Rightarrow>
               if js_lt (quantity h) qty then (pf, Not_enough_shares)
               else
                 let price = fetchCurrentPrice server symbol
                 in if \<not> truthy price then (pf, Price_unavailable)
                    else
                      let pf1 = pf\<lparr>cash := js_add (cash pf) (js_mul price qty)\<rparr>;
                          h1 = h\<lparr>quantity := js_sub (quantity h) qty\<rparr>;
                          st = (if js_strict_eq (quantity h1) (Num 0)
                                then (stocks pf1)(symbol := None)
                                else (stocks pf1)(symbol \<mapsto> h1))
                      in (pf1\<lparr>stocks := st\<rparr>, Sold qty symbol price))"

text \<open>A server that answers every price request with status 200 and the price \<open>p\<close>.\<close>

definition constant_server :: "rat \<Rightarrow> string \<Rightarrow> xhr" where
  "constant_server p path = \<lparr>status = 200, data_price = Num p\<rparr>"

subsection \<open>Python values on the server\<close>

text \<open>
  Python's \<open>upper\<close> on the route's symbol, on the same byte strings.
\<close>

definition upper :: "string \<Rightarrow> string" where
  "upper s = map upper_char s"

text \<open>
  \<open>round(x, 2)\<close>: the nearest multiple of 1/100, a tie going to the even one. Python
  numbers are exact rationals here, as the JavaScript ones are.
\<close>

definition py_round2 :: "rat \<Rightarrow> rat" where
  "py_round2 x =
     (let y = x * 100;
          f = \<lfloor>y\<rfloor>;
          d = y - of_int f
      in of_int (if d < 1 / 2 then f
                 else if 1 / 2 < d then f + 1
                 else if even f then f else f + 1) / 100)"

text \<open>
  What \<open>request.get_json()\<close> returns: \<open>None\<close>, a bool, a number, a string, a list
  or a dict. A dict is the list of its items in insertion order, its keys distinct.
\<close>

datatype json =
    JNull
  | JBool bool
  | JNum rat
  | JStr string
  | JArr "json list"
  | JObj "(string \<times> json) list"

text \<open>
  A request ends with the route's reply or with an exception: \<open>BadRequest\<close> is the one
  \<open>get_json\<close> itself raises on a body it cannot read, \<open>Uncaught\<close> any exception of
  the route's own code (\<open>KeyError\<close>, \<open>TypeError\<close>, \<open>AttributeError\<close>), which the
  framework answers with status 500. Which of the three it is decides nothing here.
\<close>

datatype py_error = BadRequest | Uncaught

fun py_truthy :: "json \<Rightarrow> bool" where
  "py_truthy JNull = False"
| "py_truthy (JBool b) = b"
| "py_truthy (JNum x) = (x \<noteq> 0)"
| "py_truthy (JStr s) = (s \<noteq> [])"
| "py_truthy (JArr xs) = (xs \<noteq> [])"
| "py_truthy (JObj kvs) = (kvs \<noteq> [])"

text \<open>\<open>x[key]\<close> with a string key: only a dict that has the key gives a value.\<close>

fun py_getitem :: "json \<Rightarrow> string \<Rightarrow> py_error + json" where
  "py_getitem (JObj kvs) k = (case map_of kvs k of None \<Rightarrow> Inl Uncaught | Some v \<Rightarrow> Inr v)"
| "py_getitem _ k = Inl Uncaught"

text \<open>\<open>x.items()\<close>: only a dict has the method.\<close>

fun py_items :: "json \<Rightarrow> py_error + (string \<times> json) list" where
  "py_items (JObj kvs) = Inr kvs"
| "py_items _ = Inl Uncaught"

text \<open>
  The numbers of Python, \<open>bool\<close> being a subtype of \<open>int\<close>. In the sum computed below
  an operand that is not a number raises \<open>TypeError\<close> in the product, in the addition
  or, at the latest, in the final \<open>round\<close>; the model raises at the operation.
\<close>

fun py_number :: "json \<Rightarrow> rat option" where
  "py_number (JNum x) = Some x"
| "py_number (JBool b) = Some (if b then 1 else 0)"
| "py_number _ = None"

definition py_mul :: "json \<Rightarrow> json \<Rightarrow> py_error + rat" where
  "py_mul a b =
     (case (py_number a, py_number b) of
        (Some x, Some y) \<Rightarrow> Inr (x * y)
      | _ \<Rightarrow> Inl Uncaught)"

subsection \<open>The portfolio chart route\<close>

text \<open>
  One pass of the loop body: \<open>cprice * data["quantity"]\<close>. The default of \<open>get\<close>
  is evaluated before the call, so a holding without \<open>avg_price\<close> raises.
\<close>

definition holding_value :: "json \<Rightarrow> py_error + rat" where
  "holding_value data =
     (case data of
        JObj kvs \<Rightarrow>
          (case py_getitem data ''avg_price'' of
             Inl e \<Rightarrow> Inl e
           | Inr avg \<Rightarrow>
               let cprice = (case map_of kvs ''currentPrice'' of None \<Rightarrow> avg | Some c \<Rightarrow> c)
               in (case py_getitem data ''quantity'' of
                     Inl e \<Rightarrow> Inl e
                   | Inr q \<Rightarrow> py_mul cprice q))
      | _ \<Rightarrow> Inl Uncaught)"

fun add_holdings :: "rat \<Rightarrow> (string \<times> json) list \<Rightarrow> py_error + rat" where
  "add_holdings tot [] = Inr tot"
| "add_holdings tot ((k, data) # rest) =
     (case holding_value data of
        Inl e \<Rightarrow> Inl e
      | Inr v \<Rightarrow> add_holdings (tot + v) rest)"

definition compute_local_portfolio_value :: "json \<Rightarrow> py_error + rat" where
  "compute_local_portfolio_value local_portfolio =
     (case py_getitem local_portfolio ''cash'' of
        Inl e \<Rightarrow> Inl e
      | Inr c \<Rightarrow>
          (case py_getitem local_portfolio ''stocks'' of
             Inl e \<Rightarrow> Inl e
           | Inr st \<Rightarrow>
               (case py_items st of
                  Inl e \<Rightarrow> Inl e
                | Inr items \<Rightarrow>
                    (case py_number c of
                       None \<Rightarrow> Inl Uncaught
                     | Some tot \<Rightarrow>
                         (case add_holdings tot items of
                            Inl e \<Rightarrow> Inl e
                          | Inr t \<Rightarrow> Inr (py_round2 t))))))"

text \<open>The limits of the y axis, set when there is more than one value.\<close>

definition y_limits :: "rat list \<Rightarrow> (rat \<times> rat) option" where
  "y_limits vs =
     (if 1 < length vs
      then let hi = fold max (tl vs) (hd vs);
               lo = fold min (tl vs) (hd vs);
               margin = 5 / 100 * (hi - lo)
           in Some (lo - margin, hi + margin)
      else None)"

text \<open>
  The route. The drawing library is a parameter: \<open>savefig\<close> stands for plotting the
  labels and values with the given limits and encoding the picture, \<open>strftime\<close> for the
  formatting of a time stamp, \<open>now\<close> for the clock read in this request. The global
  \<open>portfolio_history\<close> is passed in and returned.
\<close>

definition get_portfolio_chart ::
  "(string list \<Rightarrow> rat list \<Rightarrow> (rat \<times> rat) option \<Rightarrow> string) \<Rightarrow> ('t \<Rightarrow> string) \<Rightarrow> 't
     \<Rightarrow> py_error + json \<Rightarrow> ('t \<times> rat) list \<Rightarrow> (py_error + string) \<times> ('t \<times> rat) list" where
  "get_portfolio_chart savefig strftime now get_json portfolio_history =
     (case get_json of
        Inl e \<Rightarrow> (Inl e, portfolio_history)
      | Inr local_portfolio \<Rightarrow>
          if \<not> py_truthy local_portfolio then (Inr [], portfolio_history)
          else
            (case compute_local_portfolio_value local_portfolio of
               Inl e \<Rightarrow> (Inl e, portfolio_history)
             | Inr val \<Rightarrow>
                 let history = portfolio_history @ [(now, val)];
                     tms = map (\<lambda>(t, _). strftime t) history;
                     vals = map (\<lambda>(_, v). v) history
                 in (Inr (savefig tms vals (y_limits vals)), history)))"


text \<open>
  A valid body, as the page sends it: an object whose \<open>cash\<close> is a number and whose
  \<open>stocks\<close> is an object of holdings, each with a numeric \<open>quantity\<close> and
  \<open>avg_price\<close> and, if present, a numeric \<open>currentPrice\<close>. \<open>decode_portfolio\<close>
  reads such a body into the cash and the list of holdings.
\<close>

definition decode_holding :: "json \<Rightarrow> (rat \<times> rat \<times> rat option) option" where
  "decode_holding d =
     (case d of
        JObj kvs \<Rightarrow>
          (case (map_of kvs ''quantity'', map_of kvs ''avg_price'') of
             (Some (JNum q), Some (JNum a)) \<Rightarrow>
               (case map_of kvs ''currentPrice'' of
                  None \<Rightarrow> Some (q, a, None)
                | Some (JNum c) \<Rightarrow> Some (q, a, Some c)
                | Some _ \<Rightarrow> None)
           | _ \<Rightarrow> None)
      | _ \<Rightarrow> None)"

fun decode_holdings :: "(string \<times> json) list \<Rightarrow> (string \<times> rat \<times> rat \<times> rat option) list option" where
  "decode_holdings [] = Some []"
| "decode_holdings ((k, d) # rest) =
     (case decode_holding d of
        None \<Rightarrow> None
      | Some h \<Rightarrow> (case decode_holdings rest of None \<Rightarrow> None | Some hs \<Rightarrow> Some ((k, h) # hs)))"

definition decode_portfolio :: "json \<Rightarrow> (rat \<times> (string \<times> rat \<times> rat \<times> rat option) list) option" where
  "decode_portfolio b =
     (case b of
        JObj kvs \<Rightarrow>
          (case (map_of kvs ''cash'', map_of kvs ''stocks'') of
             (Some (JNum c), Some (JObj st)) \<Rightarrow>
               (case decode_holdings st of None \<Rightarrow> None | Some hs \<Rightarrow> Some (c, hs))
           | _ \<Rightarrow> None)
      | _ \<Rightarrow> None)"

definition valid_portfolio :: "json \<Rightarrow> bool" where
  "valid_portfolio b = (decode_portfolio b \<noteq> None)"




subsection \<open>The price routes\<close>

text \<open>
  The market-data library is a parameter: \<open>yf_history symbol period\<close> is what
  \<open>yf.Ticker(symbol).history(period=period)\<close> does in this request, either an exception
  with its message or the rows of the frame, each a date and its closing price. A reply of
  a route comes with the lines it printed and the requests it made to the library.
\<close>

datatype yf = YfRaises string | YfFrame "(string \<times> rat) list"

record 'a served =
  reply :: 'a
  printed :: "string list"
  fetched :: "(string \<times> string) list"

text \<open>\<open>uniform\<close> is the value that \<open>random.uniform(-0.1, 0.1)\<close> draws in this call.\<close>

definition get_stock_price :: "(string \<Rightarrow> string \<Rightarrow> yf) \<Rightarrow> rat \<Rightarrow> string \<Rightarrow> rat served" where
  "get_stock_price yf_history uniform symbol0 =
     (let symbol = upper symbol0
      in if symbol = ''RANDOM''
         then \<lparr>reply = py_round2 (100 * (1 + uniform)), printed = [], fetched = []\<rparr>
         else
           (case yf_history symbol ''1d'' of
              YfRaises e \<Rightarrow>
                \<lparr>reply = 0,
                 printed = [''Error fetching price for '' @ symbol @ '': '' @ e],
                 fetched = [(symbol, ''1d'')]\<rparr>
            | YfFrame rows \<Rightarrow>
                if rows = [] then \<lparr>reply = 0, printed = [], fetched = [(symbol, ''1d'')]\<rparr>
                else \<lparr>reply = py_round2 (snd (last rows)), printed = [],
                      fetched = [(symbol, ''1d'')]\<rparr>))"

definition get_stock_history ::
  "(string \<Rightarrow> string \<Rightarrow> yf) \<Rightarrow> string \<Rightarrow> (string list \<times> rat list) served" where
  "get_stock_history yf_history symbol =
     (if upper symbol = ''RANDOM'' then \<lparr>reply = ([], []), printed = [], fetched = []\<rparr>
      else
        (case yf_history symbol ''1y'' of
           YfRaises e \<Rightarrow>
             \<lparr>reply = ([], []),
              printed = [''Error fetching history for '' @ symbol @ '': '' @ e],
              fetched = [(symbol, ''1y'')]\<rparr>
         | YfFrame rows \<Rightarrow>
             if rows = [] then \<lparr>reply = ([], []), printed = [], fetched = [(symbol, ''1y'')]\<rparr>
             else \<lparr>reply = (map fst rows, map snd rows), printed = [],
                   fetched = [(symbol, ''1y'')]\<rparr>))"

text \<open>The reply of the price route is the \<open>price\<close> member of its JSON.\<close>

definition api_get_stock_price :: "(string \<Rightarrow> string \<Rightarrow> yf) \<Rightarrow> rat \<Rightarrow> string \<Rightarrow> rat served" where
  "api_get_stock_price yf_history uniform symbol =
     (let symbol_up = upper symbol
      in if symbol_up = ''RANDOM''
         then \<lparr>reply = py_round2 (100 * (1 + uniform)), printed = [], fetched = []\<rparr>
         else
           (case yf_history symbol_up ''1d'' of
              YfRaises e \<Rightarrow>
                \<lparr>reply = 0,
                 printed = [''Error fetching price for '' @ symbol_up @ '': '' @ e],
                 fetched = [(symbol_up, ''1d'')]\<rparr>
            | YfFrame rows \<Rightarrow>
                if rows = [] then \<lparr>reply = 0, printed = [], fetched = [(symbol_up, ''1d'')]\<rparr>
                else \<lparr>reply = py_round2 (snd (last rows)), printed = [],
                      fetched = [(symbol_up, ''1d'')]\<rparr>))"

text \<open>
  The reply of the price-chart route is the \<open>chart\<close> member of its JSON; \<open>savefig\<close>
  stands for drawing the titled series and encoding the picture.
\<close>

definition api_get_stock_price_chart ::
  "(string \<Rightarrow> string \<Rightarrow> yf) \<Rightarrow> (string \<Rightarrow> string list \<Rightarrow> rat list \<Rightarrow> string) \<Rightarrow> string
     \<Rightarrow> string served" where
  "api_get_stock_price_chart yf_history savefig symbol =
     (if upper symbol = ''RANDOM'' then \<lparr>reply = [], printed = [], fetched = []\<rparr>
      else
        (case yf_history symbol ''1y'' of
           YfRaises e \<Rightarrow>
             \<lparr>reply = [],
              printed = [''Error fetching 1y history for '' @ symbol @ '': '' @ e],
              fetched = [(symbol, ''1y'')]\<rparr>
         | YfFrame rows \<Rightarrow>
             if rows = [] then \<lparr>reply = [], printed = [], fetched = [(symbol, ''1y'')]\<rparr>
             else \<lparr>reply = savefig (upper symbol @ '' Price History (1 Year)'')
                              (map fst rows) (map snd rows),
                   printed = [], fetched = [(symbol, ''1y'')]\<rparr>))"

subsection \<open>Stand-ins for the libraries in the examples\<close>

text \<open>
  A drawing function that gives the same picture for every series, a clock format that
  prints the seconds as one character, a data source that always raises and one that
  always returns an empty frame.
\<close>

definition fixed_savefig :: "string list \<Rightarrow> rat list \<Rightarrow> (rat \<times> rat) option \<Rightarrow> string" where
  "fixed_savefig tms vals ylim = ''iVBORw0KGgo=''"

definition fixed_plot :: "string \<Rightarrow> string list \<Rightarrow> rat list \<Rightarrow> string" where
  "fixed_plot title idx vals = ''iVBORw0KGgo=''"

definition digit_strftime :: "nat \<Rightarrow> string" where
  "digit_strftime t = [char_of (48 + t mod 10)]"

definition failing_source :: "string \<Rightarrow> string \<Rightarrow> yf" where
  "failing_source symbol period = YfRaises ''timed out''"

definition empty_source :: "string \<Rightarrow> string \<Rightarrow> yf" where
  "empty_source symbol period = YfFrame []"

section \<open>Properties of the client\<close>

subsection \<open>Arithmetic with NaN and concrete inputs\<close>

lemma js_NaN_right [simp]:
  "js_add a NaN = NaN" "js_mul a NaN = NaN" "js_div a NaN = NaN"
  "js_lt a NaN = False" "js_le a NaN = False" "js_strict_eq a NaN = False"
  by (cases a; simp)+

lemma js_sub_NaN [simp]: "js_sub a NaN = NaN"
  by (simp add: js_sub_def)

lemma js_sub_Num [simp]: "js_sub (Num a) (Num b) = Num (a - b)"
  by (simp add: js_sub_def)


lemma upper_random: "toUpperCase ''random'' = ''RANDOM''"
  by code_simp

lemma upper_aapl: "toUpperCase ''aapl'' = ''AAPL''"
  by code_simp

lemma parseInt_10: "parseInt ''10'' = Num 10"
  by code_simp

lemma parseInt_5: "parseInt ''5'' = Num 5"
  by code_simp

lemma parseInt_0: "parseInt ''0'' = Num 0"
  by code_simp

lemma parseInt_1000: "parseInt ''1000'' = Num 1000"
  by code_simp

lemma parseInt_empty: "parseInt [] = NaN"
  by code_simp

lemma parseInt_abc: "parseInt ''abc'' = NaN"
  by code_simp

lemma fetch_constant_server: "p \<noteq> 0 \<Longrightarrow> fetchCurrentPrice (constant_server p) s = Num p"
  by (simp add: fetchCurrentPrice_def constant_server_def js_or_def)



subsection \<open>Buying\<close>

text \<open>
  C1. A successful Buy of \<open>q2 > 0\<close> shares at an available price \<open>p2 > 0\<close>, with cash
  \<open>c \<ge> p2 * q2\<close>, deducts \<open>p2 * q2\<close> from the cash and leaves every other symbol as it
  was. If the symbol is not held yet, it creates a holding of \<open>q2\<close> shares with average
  price \<open>p2\<close>. If \<open>q1\<close> shares are held at average price \<open>p1\<close> (and \<open>q1 + q2\<close> is not
  zero, so that the mean exists), the holding gets \<open>q1 + q2\<close> shares at the average price
  \<open>(q1 * p1 + q2 * p2) / (q1 + q2)\<close>. In both cases \<open>currentPrice\<close> becomes \<open>p2\<close>.
\<close>

theorem buyStock_weighted_average:
  assumes sym: "toUpperCase tradeSymbol = symbol" "symbol \<noteq> []"
    and qty: "parseInt tradeQuantity = Num q2" "0 < q2"
    and price: "fetchCurrentPrice server symbol = Num p2" "0 < p2"
    and funds: "cash pf = Num c" "p2 * q2 \<le> c"
  shows "snd (buyStock server tradeSymbol tradeQuantity pf) = Bought (Num q2) symbol (Num p2)
       \<and> cash (fst (buyStock server tradeSymbol tradeQuantity pf)) = Num (c - p2 * q2)
       \<and> (\<forall>s. s \<noteq> symbol \<longrightarrow>
            stocks (fst (buyStock server tradeSymbol tradeQuantity pf)) s = stocks pf s)
       \<and> (stocks pf symbol = None \<longrightarrow>
            stocks (fst (buyStock server tradeSymbol tradeQuantity pf)) symbol
              = Some \<lparr>quantity = Num q2, avg_price = Num p2, currentPrice = Num p2\<rparr>)
       \<and> (\<forall>q1 p1 cp.
            stocks pf symbol = Some \<lparr>quantity = Num q1, avg_price = Num p1, currentPrice = cp\<rparr>
              \<and> q1 + q2 \<noteq> 0 \<longrightarrow>
            stocks (fst (buyStock server tradeSymbol tradeQuantity pf)) symbol
              = Some \<lparr>quantity = Num (q1 + q2),
                      avg_price = Num ((q1 * p1 + q2 * p2) / (q1 + q2)),
                      currentPrice = Num p2\<rparr>)"
  using assms by (auto simp: buyStock_def Let_def)

text \<open>
  The example of the specification (10 shares of RANDOM at 100 from 10000 in cash), then
  10 more at 110: the average of the 20 shares is 105.
\<close>

theorem buyStock_weighted_average_witness:
  "cash (fst (buyStock (constant_server 100) ''random'' ''10'' initial_portfolio)) = Num 9000
   \<and> stocks (fst (buyStock (constant_server 100) ''random'' ''10'' initial_portfolio)) ''RANDOM''
       = Some \<lparr>quantity = Num 10, avg_price = Num 100, currentPrice = Num 100\<rparr>
   \<and> stocks (fst (buyStock (constant_server 110) ''random'' ''10''
         \<lparr>cash = Num 9000,
          stocks = [''RANDOM'' \<mapsto> \<lparr>quantity = Num 10, avg_price = Num 100, currentPrice = Num 100\<rparr>]\<rparr>))
         ''RANDOM''
       = Some \<lparr>quantity = Num 20, avg_price = Num 105, currentPrice = Num 110\<rparr>"
proof -
  have f1: "fetchCurrentPrice (constant_server 100) ''RANDOM'' = Num 100"
    and f2: "fetchCurrentPrice (constant_server 110) ''RANDOM'' = Num 110"
    by (simp_all add: fetch_constant_server)
  note a = buyStock_weighted_average [OF upper_random _ parseInt_10 _ f1,
      of initial_portfolio 10000]
  note b = buyStock_weighted_average [OF upper_random _ parseInt_10 _ f2,
      of "\<lparr>cash = Num 9000,
          stocks = [''RANDOM'' \<mapsto> \<lparr>quantity = Num 10, avg_price = Num 100, currentPrice = Num 100\<rparr>]\<rparr>"
         9000]
  from a have "cash (fst (buyStock (constant_server 100) ''random'' ''10'' initial_portfolio))
        = Num 9000
      \<and> stocks (fst (buyStock (constant_server 100) ''random'' ''10'' initial_portfolio)) ''RANDOM''
        = Some \<lparr>quantity = Num 10, avg_price = Num 100, currentPrice = Num 100\<rparr>"
    by (simp add: initial_portfolio_def)
  moreover from b have "stocks (fst (buyStock (constant_server 110) ''random'' ''10''
         \<lparr>cash = Num 9000,
          stocks = [''RANDOM'' \<mapsto> \<lparr>quantity = Num 10, avg_price = Num 100, currentPrice = Num 100\<rparr>]\<rparr>))
         ''RANDOM''
       = Some \<lparr>quantity = Num 20, avg_price = Num 105, currentPrice = Num 110\<rparr>"
    by simp
  ultimately show ?thesis by simp
qed

subsection \<open>Selling\<close>

text \<open>
  C2. A successful Sell of \<open>q > 0\<close> shares out of \<open>hq \<ge> q\<close> held, at an available price
  \<open>p > 0\<close>, adds \<open>p * q\<close> to the cash and leaves every other symbol as it was. The holding
  is removed from the mapping exactly when \<open>hq - q\<close> is zero; otherwise it stays with
  \<open>hq - q\<close> shares and all its other fields, the average price among them, unchanged.
\<close>

theorem sellStock_credits_and_decrements:
  assumes sym: "toUpperCase tradeSymbol = symbol" "symbol \<noteq> []"
    and qty: "parseInt tradeQuantity = Num q" "0 < q"
    and held: "stocks pf symbol = Some h" "quantity h = Num hq" "q \<le> hq"
    and price: "fetchCurrentPrice server symbol = Num p" "0 < p"
    and funds: "cash pf = Num c"
  shows "snd (sellStock server tradeSymbol tradeQuantity pf) = Sold (Num q) symbol (Num p)
       \<and> cash (fst (sellStock server tradeSymbol tradeQuantity pf)) = Num (c + p * q)
       \<and> (\<forall>s. s \<noteq> symbol \<longrightarrow>
            stocks (fst (sellStock server tradeSymbol tradeQuantity pf)) s = stocks pf s)
       \<and> (stocks (fst (sellStock server tradeSymbol tradeQuantity pf)) symbol = None
            \<longleftrightarrow> hq - q = 0)
       \<and> (hq - q \<noteq> 0 \<longrightarrow>
            stocks (fst (sellStock server tradeSymbol tradeQuantity pf)) symbol
              = Some (h\<lparr>quantity := Num (hq - q)\<rparr>))"
  using assms by (auto simp: sellStock_def Let_def)

text \<open>
  The example of the specification: 5 of the 10 shares sold at 110 bring the cash from 9000
  to 9550 and leave 5 shares at the average price 100; selling all 10 removes the holding.
\<close>

theorem sellStock_credits_and_decrements_witness:
  "cash (fst (sellStock (constant_server 110) ''random'' ''5''
         \<lparr>cash = Num 9000,
          stocks = [''RANDOM'' \<mapsto> \<lparr>quantity = Num 10, avg_price = Num 100, currentPrice = Num 100\<rparr>]\<rparr>))
     = Num 9550
   \<and> stocks (fst (sellStock (constant_server 110) ''random'' ''5''
         \<lparr>cash = Num 9000,
          stocks = [''RANDOM'' \<mapsto> \<lparr>quantity = Num 10, avg_price = Num 100, currentPrice = Num 100\<rparr>]\<rparr>))
         ''RANDOM''
     = Some \<lparr>quantity = Num 5, avg_price = Num 100, currentPrice = Num 100\<rparr>
   \<and> stocks (fst (sellStock (constant_server 110) ''random'' ''10''
         \<lparr>cash = Num 9000,
          stocks = [''RANDOM'' \<mapsto> \<lparr>quantity = Num 10, avg_price = Num 100, currentPrice = Num 100\<rparr>]\<rparr>))
         ''RANDOM''
     = None"
proof -
  let ?h = "\<lparr>quantity = Num 10, avg_price = Num 100, currentPrice = Num 100\<rparr>"
  let ?pf = "\<lparr>cash = Num 9000, stocks = [''RANDOM'' \<mapsto> ?h]\<rparr>"
  have f: "fetchCurrentPrice (constant_server 110) ''RANDOM'' = Num 110"
    by (simp add: fetch_constant_server)
  have held: "stocks ?pf ''RANDOM'' = Some ?h" and q: "quantity ?h = Num 10"
    and c: "cash ?pf = Num 9000"
    by simp_all
  note a = sellStock_credits_and_decrements [OF upper_random _ parseInt_5 _ held q _ f _ c]
  note b = sellStock_credits_and_decrements [OF upper_random _ parseInt_10 _ held q _ f _ c]
  from a have "cash (fst (sellStock (constant_server 110) ''random'' ''5'' ?pf)) = Num 9550
     \<and> stocks (fst (sellStock (constant_server 110) ''random'' ''5'' ?pf)) ''RANDOM''
       = Some \<lparr>quantity = Num 5, avg_price = Num 100, currentPrice = Num 100\<rparr>"
    by simp
  moreover from b have
    "stocks (fst (sellStock (constant_server 110) ''random'' ''10'' ?pf)) ''RANDOM'' = None"
    by simp
  ultimately show ?thesis by simp
qed

subsection \<open>Failed validation\<close>

text \<open>
  C3. In every portfolio state, a Buy whose validation fails (no symbol, a quantity that is
  not positive, a price that is zero or not available, or cash below price times quantity)
  and a Sell whose validation fails (no symbol, a quantity that is not positive, no holding
  of the symbol, fewer shares held than requested, or a price that is zero or not
  available) return the portfolio as it was, and the alert they show is one of the failure
  messages.
\<close>

theorem failed_trade_leaves_portfolio:
  "(toUpperCase ts = []
      \<or> js_le (parseInt tq) (Num 0)
      \<or> \<not> truthy (fetchCurrentPrice server (toUpperCase ts))
      \<or> js_lt (cash pf) (js_mul (fetchCurrentPrice server (toUpperCase ts)) (parseInt tq))
     \<longrightarrow> fst (buyStock server ts tq pf) = pf \<and> is_failure (snd (buyStock server ts tq pf)))
   \<and> (toUpperCase ts = []
      \<or> js_le (parseInt tq) (Num 0)
      \<or> stocks pf (toUpperCase ts) = None
      \<or> (\<exists>h. stocks pf (toUpperCase ts) = Some h \<and> js_lt (quantity h) (parseInt tq))
      \<or> \<not> truthy (fetchCurrentPrice server (toUpperCase ts))
     \<longrightarrow> fst (sellStock server ts tq pf) = pf \<and> is_failure (snd (sellStock server ts tq pf)))"
  by (auto simp: buyStock_def sellStock_def Let_def split: option.splits)

text \<open>
  From the initial portfolio: buying 1000 shares at 100 fails for lack of funds, buying 0
  shares is invalid, and selling a symbol that is not held fails.
\<close>

theorem failed_trade_leaves_portfolio_witness:
  "fst (buyStock (constant_server 100) ''aapl'' ''1000'' initial_portfolio) = initial_portfolio
   \<and> is_failure (snd (buyStock (constant_server 100) ''aapl'' ''1000'' initial_portfolio))
   \<and> fst (buyStock (constant_server 100) ''aapl'' ''0'' initial_portfolio) = initial_portfolio
   \<and> fst (sellStock (constant_server 100) ''aapl'' ''5'' initial_portfolio) = initial_portfolio
   \<and> is_failure (snd (sellStock (constant_server 100) ''aapl'' ''5'' initial_portfolio))"
proof -
  have poor: "js_lt (cash initial_portfolio)
      (js_mul (fetchCurrentPrice (constant_server 100) (toUpperCase ''aapl'')) (parseInt ''1000''))"
    by (simp add: initial_portfolio_def fetch_constant_server parseInt_1000)
  have zero: "js_le (parseInt ''0'') (Num 0)"
    by (simp add: parseInt_0)
  have none: "stocks initial_portfolio (toUpperCase ''aapl'') = None"
    by (simp add: initial_portfolio_def)
  from poor failed_trade_leaves_portfolio [of "''aapl''" "''1000''" "constant_server 100" initial_portfolio]
  have a: "fst (buyStock (constant_server 100) ''aapl'' ''1000'' initial_portfolio) = initial_portfolio
      \<and> is_failure (snd (buyStock (constant_server 100) ''aapl'' ''1000'' initial_portfolio))"
    by blast
  from zero failed_trade_leaves_portfolio [of "''aapl''" "''0''" "constant_server 100" initial_portfolio]
  have b: "fst (buyStock (constant_server 100) ''aapl'' ''0'' initial_portfolio) = initial_portfolio"
    by blast
  from none failed_trade_leaves_portfolio [of "''aapl''" "''5''" "constant_server 100" initial_portfolio]
  have c: "fst (sellStock (constant_server 100) ''aapl'' ''5'' initial_portfolio) = initial_portfolio
      \<and> is_failure (snd (sellStock (constant_server 100) ''aapl'' ''5'' initial_portfolio))"
    by blast
  from a b c show ?thesis by blast
qed

subsection \<open>Buying and selling back\<close>



subsection \<open>A quantity that is not a number\<close>

text \<open>
  C10. When \<open>parseInt\<close> maps the quantity text to NaN, the comparison \<open>quantity <= 0\<close>
  of both guards is false, so with a symbol typed in neither Buy nor Sell answers
  "Invalid input". If the price of the symbol resolves to a positive value, the Buy goes
  through: the comparison of the cash with the cost is false too, the cash becomes NaN and
  the holding of the symbol gets the quantity NaN.
\<close>

theorem nan_quantity_passes_guards:
  assumes qty: "parseInt tq = NaN"
    and sym: "toUpperCase ts \<noteq> []"
    and price: "fetchCurrentPrice server (toUpperCase ts) = Num p" "0 < p"
  shows "\<not> js_le (parseInt tq) (Num 0)
       \<and> \<not> js_lt (cash pf) (js_mul (Num p) (parseInt tq))
       \<and> snd (buyStock server ts tq pf) = Bought NaN (toUpperCase ts) (Num p)
       \<and> cash (fst (buyStock server ts tq pf)) = NaN
       \<and> map_option quantity (stocks (fst (buyStock server ts tq pf)) (toUpperCase ts)) = Some NaN
       \<and> snd (sellStock server ts tq pf) \<noteq> Invalid_input"
  using assms
  by (auto simp: buyStock_def sellStock_def Let_def split: option.splits)

text \<open>An empty quantity field, the symbol AAPL at the price 150, the initial portfolio.\<close>

theorem nan_quantity_passes_guards_witness:
  "snd (buyStock (constant_server 150) ''aapl'' [] initial_portfolio)
     = Bought NaN ''AAPL'' (Num 150)
   \<and> cash (fst (buyStock (constant_server 150) ''aapl'' [] initial_portfolio)) = NaN"
proof -
  have s: "toUpperCase ''aapl'' \<noteq> []"
    by (simp add: upper_aapl)
  have p: "fetchCurrentPrice (constant_server 150) (toUpperCase ''aapl'') = Num 150"
    by (simp add: fetch_constant_server)
  from nan_quantity_passes_guards [OF parseInt_empty s p, of initial_portfolio]
  show ?thesis
    by (simp add: upper_aapl)
qed

section \<open>Properties of the server\<close>

subsection \<open>Rounding to two decimals\<close>

lemma py_round2_bounds:
  assumes "of_int a \<le> x * 100" "x * 100 \<le> of_int b"
  shows "of_int a / 100 \<le> py_round2 x \<and> py_round2 x \<le> of_int b / 100"
proof -
  let ?y = "x * 100"
  let ?f = "\<lfloor>?y\<rfloor>"
  have lo: "a \<le> ?f" using assms(1) by (simp add: le_floor_iff)
  have hi: "?f \<le> b" using assms(2) by (simp add: floor_le_iff)
  have step: "?f + 1 \<le> b" if "0 < ?y - of_int ?f"
  proof -
    from that have "of_int ?f < ?y" by simp
    with assms(2) have "(of_int ?f :: rat) < of_int b" by linarith
    then show ?thesis by simp
  qed
  show ?thesis
    using lo hi step
    by (auto simp: py_round2_def Let_def divide_le_cancel intro!: divide_right_mono)
qed

lemma py_round2_cents: "py_round2 x * 100 \<in> \<int>"
  by (simp add: py_round2_def Let_def)

lemma py_round2_near: "\<bar>py_round2 x - x\<bar> \<le> 1 / 200"
proof -
  let ?y = "x * 100"
  let ?f = "\<lfloor>?y\<rfloor>"
  have a: "of_int ?f \<le> ?y" and b: "?y < of_int ?f + 1"
    by linarith+
  have "\<bar>py_round2 x * 100 - ?y\<bar> \<le> 1 / 2"
    using a b by (auto simp: py_round2_def Let_def abs_le_iff)
  then show ?thesis by linarith
qed

lemma upper_RaNdOm: "upper ''RaNdOm'' = ''RANDOM''"
  by code_simp

lemma upper_aapl_ne: "upper ''aapl'' \<noteq> ''RANDOM''"
  by code_simp

subsection \<open>The synthetic symbol\<close>

text \<open>
  C8. For every symbol whose upper-case form is RANDOM and every draw \<open>u\<close> of
  \<open>random.uniform(-0.1, 0.1)\<close>, the price that the route (and the helper
  \<open>get_stock_price\<close>) returns is \<open>100 * (1 + u)\<close> rounded to two decimals: a multiple of
  1/100 between 90 and 110. It depends on the draw of this call alone: the route has no
  state to read, it makes no request to the data source, and whatever the data source
  would do, the reply is the same.
\<close>

theorem random_price_in_range:
  assumes sym: "upper symbol = ''RANDOM''"
    and draw: "- (1 / 10) \<le> u" "u \<le> 1 / 10"
  shows "reply (api_get_stock_price yf_history u symbol) = py_round2 (100 * (1 + u))
       \<and> 90 \<le> reply (api_get_stock_price yf_history u symbol)
       \<and> reply (api_get_stock_price yf_history u symbol) \<le> 110
       \<and> reply (api_get_stock_price yf_history u symbol) * 100 \<in> \<int>
       \<and> \<bar>reply (api_get_stock_price yf_history u symbol) - 100 * (1 + u)\<bar> \<le> 1 / 200
       \<and> fetched (api_get_stock_price yf_history u symbol) = []
       \<and> api_get_stock_price yf_history u symbol = api_get_stock_price other_history u symbol
       \<and> get_stock_price yf_history u symbol = api_get_stock_price yf_history u symbol"
proof -
  have r: "reply (api_get_stock_price yf_history u symbol) = py_round2 (100 * (1 + u))"
    using sym by (simp add: api_get_stock_price_def)
  have "of_int 9000 \<le> (100 * (1 + u)) * 100" "(100 * (1 + u)) * 100 \<le> of_int 11000"
    using draw by simp_all
  from py_round2_bounds [OF this]
  have "90 \<le> py_round2 (100 * (1 + u))" "py_round2 (100 * (1 + u)) \<le> 110"
    by simp_all
  moreover have "fetched (api_get_stock_price yf_history u symbol) = []"
    using sym by (simp add: api_get_stock_price_def)
  moreover have "api_get_stock_price yf_history u symbol = api_get_stock_price other_history u symbol"
    using sym by (simp add: api_get_stock_price_def)
  moreover have "get_stock_price yf_history u symbol = api_get_stock_price yf_history u symbol"
    by (simp add: api_get_stock_price_def get_stock_price_def)
  ultimately show ?thesis
    using r py_round2_cents [of "100 * (1 + u)"] py_round2_near [of "100 * (1 + u)"]
    by simp
qed

text \<open>The symbol typed as RaNdOm and the draw 0.03456: the price is 103.46.\<close>

theorem random_price_in_range_witness:
  "reply (api_get_stock_price failing_source (3456 / 100000) ''RaNdOm'') = 10346 / 100
   \<and> fetched (api_get_stock_price failing_source (3456 / 100000) ''RaNdOm'') = []"
proof -
  have d: "- (1 / 10) \<le> (3456 / 100000 :: rat)" "(3456 / 100000 :: rat) \<le> 1 / 10"
    by simp_all
  have v: "py_round2 (100 * (1 + 3456 / 100000)) = 10346 / 100"
    by code_simp
  from random_price_in_range [OF upper_RaNdOm d, of failing_source] v
  show ?thesis by simp
qed

text \<open>
  C9. For every casing of RANDOM the price-chart route returns the empty chart string,
  without a request to the data source, and the history helper returns the empty series
  for it. For any symbol, an empty series from the data source gives the empty chart
  string as well.
\<close>

theorem random_chart_is_empty:
  "(upper symbol = ''RANDOM'' \<longrightarrow>
      reply (api_get_stock_price_chart yf_history savefig symbol) = []
      \<and> printed (api_get_stock_price_chart yf_history savefig symbol) = []
      \<and> fetched (api_get_stock_price_chart yf_history savefig symbol) = []
      \<and> reply (get_stock_history yf_history symbol) = ([], [])
      \<and> fetched (get_stock_history yf_history symbol) = [])
   \<and> (yf_history symbol ''1y'' = YfFrame [] \<longrightarrow>
      reply (api_get_stock_price_chart yf_history savefig symbol) = []
      \<and> reply (get_stock_history yf_history symbol) = ([], []))"
  by (simp add: api_get_stock_price_chart_def get_stock_history_def)

theorem random_chart_is_empty_witness:
  "reply (api_get_stock_price_chart failing_source fixed_plot ''RaNdOm'') = []
   \<and> fetched (api_get_stock_price_chart failing_source fixed_plot ''RaNdOm'') = []
   \<and> reply (api_get_stock_price_chart empty_source fixed_plot ''aapl'') = []"
proof -
  have e: "empty_source ''aapl'' ''1y'' = YfFrame []"
    by (simp add: empty_source_def)
  from random_chart_is_empty [of "''RaNdOm''" failing_source fixed_plot] upper_RaNdOm
  have a: "reply (api_get_stock_price_chart failing_source fixed_plot ''RaNdOm'') = []
      \<and> fetched (api_get_stock_price_chart failing_source fixed_plot ''RaNdOm'') = []"
    by blast
  from random_chart_is_empty [of "''aapl''" empty_source fixed_plot] e
  have b: "reply (api_get_stock_price_chart empty_source fixed_plot ''aapl'') = []"
    by blast
  from a b show ?thesis by blast
qed

subsection \<open>A data source that fails\<close>

text \<open>
  C7. For every symbol that is not RANDOM in upper case: when the request to the data
  source raises an exception or returns no rows, the price route replies with the price 0
  and the price-chart route with the empty chart string. Both routes always return a
  reply: the exception is caught, and what is printed is one line with the symbol and the
  message of the exception.
\<close>

theorem fetch_failure_gives_sentinel:
  assumes sym: "upper symbol \<noteq> ''RANDOM''"
  shows "(yf_history (upper symbol) ''1d'' = YfRaises e \<or> yf_history (upper symbol) ''1d'' = YfFrame []
            \<longrightarrow> reply (api_get_stock_price yf_history u symbol) = 0)
       \<and> (yf_history (upper symbol) ''1d'' = YfRaises e
            \<longrightarrow> printed (api_get_stock_price yf_history u symbol)
                  = [''Error fetching price for '' @ upper symbol @ '': '' @ e])
       \<and> (yf_history symbol ''1y'' = YfRaises e \<or> yf_history symbol ''1y'' = YfFrame []
            \<longrightarrow> reply (api_get_stock_price_chart yf_history savefig symbol) = [])
       \<and> (yf_history symbol ''1y'' = YfRaises e
            \<longrightarrow> printed (api_get_stock_price_chart yf_history savefig symbol)
                  = [''Error fetching 1y history for '' @ symbol @ '': '' @ e])"
  using sym
  by (auto simp: api_get_stock_price_def api_get_stock_price_chart_def Let_def)

theorem fetch_failure_gives_sentinel_witness:
  "reply (api_get_stock_price failing_source 0 ''aapl'') = 0
   \<and> reply (api_get_stock_price empty_source 0 ''aapl'') = 0
   \<and> reply (api_get_stock_price_chart failing_source fixed_plot ''aapl'') = []
   \<and> printed (api_get_stock_price_chart failing_source fixed_plot ''aapl'')
       = [''Error fetching 1y history for aapl: timed out'']"
proof -
  have f: "failing_source (upper ''aapl'') ''1d'' = YfRaises ''timed out''"
      "failing_source ''aapl'' ''1y'' = YfRaises ''timed out''"
    by (simp_all add: failing_source_def)
  have e: "empty_source (upper ''aapl'') ''1d'' = YfFrame []"
    by (simp add: empty_source_def)
  note a = fetch_failure_gives_sentinel [OF upper_aapl_ne, of failing_source "''timed out''" 0 fixed_plot]
  note b = fetch_failure_gives_sentinel [OF upper_aapl_ne, of empty_source "''timed out''" 0 fixed_plot]
  from a f have "reply (api_get_stock_price failing_source 0 ''aapl'') = 0
      \<and> reply (api_get_stock_price_chart failing_source fixed_plot ''aapl'') = []
      \<and> printed (api_get_stock_price_chart failing_source fixed_plot ''aapl'')
          = [''Error fetching 1y history for aapl: timed out'']"
    by simp
  moreover from b e have "reply (api_get_stock_price empty_source 0 ''aapl'') = 0"
    by simp
  ultimately show ?thesis by simp
qed

subsection \<open>The value of a valid body\<close>











subsection \<open>Valid bodies\<close>



subsection \<open>Missing and malformed bodies\<close>

text \<open>
  A body that is not a valid portfolio can still have a value: Python's \<open>True\<close> is the
  number 1, so this body, whose cash is not a number, appends the sample 1.
\<close>

lemma lenient_body_example:
  "\<not> valid_portfolio (JObj [(''cash'', JBool True), (''stocks'', JObj [])])
   \<and> snd (get_portfolio_chart fixed_savefig digit_strftime (1::nat)
           (Inr (JObj [(''cash'', JBool True), (''stocks'', JObj [])])) [])
       = [(1, 1)]"
proof -
  have "py_round2 1 = 1" by code_simp
  then show ?thesis
    by (simp add: valid_portfolio_def decode_portfolio_def get_portfolio_chart_def
        compute_local_portfolio_value_def Let_def)
qed





end
